theory Spec2Isabelle
  imports Complex_Main
begin

section \<open>The conversation store (src/memory.py)\<close>

text \<open>
  \<^verbatim>\<open>ConversationMemory\<close> keeps two SQLite tables, \<^verbatim>\<open>sessions\<close> and \<^verbatim>\<open>messages\<close>.
  Every method opens a connection of its own with \<^verbatim>\<open>sqlite3.connect\<close>, runs its
  statements, commits and closes. The database file is the state; each method is a
  function from the database (and the clock reading that \<^verbatim>\<open>CURRENT_TIMESTAMP\<close> gives
  the call) to its result and the database it leaves.

  Metadata is a Python dict written with \<^verbatim>\<open>json.dumps\<close> and read back with
  \<^verbatim>\<open>json.loads\<close>; the tables hold the dict itself here. A timestamp is the text
  \<^verbatim>\<open>YYYY-MM-DD HH:MM:SS\<close>, whose order is the order of the seconds it counts: a
  natural number.
\<close>

datatype json = JString string | JArray "json list" | JObject "(string \<times> json) list"

type_synonym metadata = "(string \<times> json) list"

record session_row =
  s_session_id :: string
  s_created_at :: nat
  s_updated_at :: nat
  s_metadata :: metadata

record message_row =
  m_id :: nat
  m_session_id :: string
  m_role :: string
  m_content :: string
  m_timestamp :: nat
  m_metadata :: metadata

text \<open>
  The tables hold their rows in rowid order. \<open>seq\<close> is the entry of \<^verbatim>\<open>sqlite_sequence\<close>
  that \<^verbatim>\<open>AUTOINCREMENT\<close> keeps for \<^verbatim>\<open>messages\<close>: the largest id ever given out.
\<close>

record database =
  sessions :: "session_row list"
  messages :: "message_row list"
  seq :: nat

datatype sqlite_error = IntegrityError string

text \<open>
  A connection as \<^verbatim>\<open>sqlite3.connect\<close> returns it. SQLite enforces foreign keys only on
  a connection that has run \<^verbatim>\<open>PRAGMA foreign_keys = ON\<close>; the setting is off on every
  new connection, and no method of \<^verbatim>\<open>ConversationMemory\<close> runs the pragma.
\<close>

record connection =
  foreign_keys :: bool

definition connect :: connection where
  "connect = \<lparr>foreign_keys = False\<rparr>"

definition init_database :: database where
  "init_database = \<lparr>sessions = [], messages = [], seq = 0\<rparr>"

definition session_ids :: "database \<Rightarrow> string list" where
  "session_ids db = map s_session_id (sessions db)"

definition owned_by :: "string \<Rightarrow> message_row \<Rightarrow> bool" where
  "owned_by sid m = (m_session_id m = sid)"

subsection \<open>The SQL statements\<close>

text \<open>\<^verbatim>\<open>INSERT INTO sessions (session_id, metadata) VALUES (?, ?)\<close>: the primary key
  rejects a second row with the same id; both timestamps take their default.\<close>

definition sql_insert_session ::
  "database \<Rightarrow> string \<Rightarrow> metadata \<Rightarrow> nat \<Rightarrow> sqlite_error + database" where
  "sql_insert_session db sid md now =
     (if sid \<in> set (session_ids db)
      then Inl (IntegrityError ''UNIQUE constraint failed: sessions.session_id'')
      else Inr (db\<lparr>sessions := sessions db @
             [\<lparr>s_session_id = sid, s_created_at = now, s_updated_at = now,
               s_metadata = md\<rparr>]\<rparr>))"

text \<open>\<^verbatim>\<open>UPDATE sessions SET updated_at = CURRENT_TIMESTAMP WHERE session_id = ?\<close>\<close>

definition sql_update_session :: "database \<Rightarrow> string \<Rightarrow> nat \<Rightarrow> database" where
  "sql_update_session db sid now =
     db\<lparr>sessions := map (\<lambda>s. if s_session_id s = sid then s\<lparr>s_updated_at := now\<rparr> else s)
                        (sessions db)\<rparr>"

text \<open>\<^verbatim>\<open>INSERT INTO messages (session_id, role, content, metadata) VALUES (?, ?, ?, ?)\<close>:
  the id is one more than the largest ever used, the timestamp takes its default. With
  foreign keys enforced the row needs its parent in \<^verbatim>\<open>sessions\<close>.\<close>

definition sql_insert_message ::
  "connection \<Rightarrow> database \<Rightarrow> string \<Rightarrow> string \<Rightarrow> string \<Rightarrow> metadata \<Rightarrow> nat
     \<Rightarrow> sqlite_error + database" where
  "sql_insert_message conn db sid role content md now =
     (if foreign_keys conn \<and> sid \<notin> set (session_ids db)
      then Inl (IntegrityError ''FOREIGN KEY constraint failed'')
      else Inr (db\<lparr>messages := messages db @
                   [\<lparr>m_id = Suc (seq db), m_session_id = sid, m_role = role,
                     m_content = content, m_timestamp = now, m_metadata = md\<rparr>],
                  seq := Suc (seq db)\<rparr>))"

text \<open>\<^verbatim>\<open>DELETE FROM sessions WHERE session_id = ?\<close>, with the row count of the cursor.
  The clause \<^verbatim>\<open>ON DELETE CASCADE\<close> of \<^verbatim>\<open>messages.session_id\<close> removes the children
  of a deleted row on a connection that enforces foreign keys, and only there.\<close>

definition sql_delete_session :: "connection \<Rightarrow> database \<Rightarrow> string \<Rightarrow> nat \<times> database" where
  "sql_delete_session conn db sid =
     (let rowcount = length (filter (\<lambda>s. s_session_id s = sid) (sessions db));
          db1 = db\<lparr>sessions := filter (\<lambda>s. s_session_id s \<noteq> sid) (sessions db)\<rparr>;
          db2 = (if foreign_keys conn \<and> 0 < rowcount
                 then db1\<lparr>messages := filter (\<lambda>m. \<not> owned_by sid m) (messages db1)\<rparr>
                 else db1)
      in (rowcount, db2))"

text \<open>Binding a Python int to a parameter of a statement: an SQLite integer has 64 bits,
  and \<^verbatim>\<open>cursor.execute\<close> raises \<^verbatim>\<open>OverflowError\<close> for an int outside them.\<close>

datatype overflow_error = OverflowError string

definition bind_int :: "int \<Rightarrow> overflow_error + int" where
  "bind_int n =
     (if - (2 ^ 63) \<le> n \<and> n < 2 ^ 63 then Inr n
      else Inl (OverflowError ''Python int too large to convert to SQLite INTEGER''))"

text \<open>\<^verbatim>\<open>LIMIT ?\<close>: a negative limit is no limit in SQLite.\<close>

definition sql_limit :: "int \<Rightarrow> 'a list \<Rightarrow> 'a list" where
  "sql_limit n rows = (if n < 0 then rows else take (nat n) rows)"

text \<open>\<^verbatim>\<open>SELECT ... FROM messages WHERE session_id = ? ORDER BY timestamp ASC\<close>. The query
  walks the index \<^verbatim>\<open>idx_messages_session (session_id, timestamp)\<close>, whose entries
  with the same session and timestamp lie in rowid order: a stable sort by timestamp of
  the session's rows in table order.\<close>

definition sql_select_messages :: "database \<Rightarrow> string \<Rightarrow> message_row list" where
  "sql_select_messages db sid = sort_key m_timestamp (filter (owned_by sid) (messages db))"

subsection \<open>The methods of ConversationMemory\<close>

text \<open>\<^verbatim>\<open>metadata or {}\<close>\<close>

definition or_empty :: "metadata option \<Rightarrow> metadata" where
  "or_empty metadata = (case metadata of None \<Rightarrow> [] | Some d \<Rightarrow> d)"

text \<open>\<^verbatim>\<open>create_session\<close>: the insertion is committed and answers True; the
  \<^verbatim>\<open>IntegrityError\<close> of a duplicate id is caught and answers False.\<close>

definition create_session ::
  "database \<Rightarrow> string \<Rightarrow> metadata option \<Rightarrow> nat \<Rightarrow> bool \<times> database" where
  "create_session db session_id metadata now =
     (case sql_insert_session db session_id (or_empty metadata) now of
        Inr db' \<Rightarrow> (True, db')
      | Inl (IntegrityError _) \<Rightarrow> (False, db))"

text \<open>\<^verbatim>\<open>add_message\<close>: the nested \<^verbatim>\<open>create_session\<close> commits on a connection of its
  own; the update and the insertion are one transaction of the outer connection. No
  exception is caught: a failing insertion leaves without the commit, so the update is
  rolled back and the error goes to the caller.\<close>

definition add_message ::
  "database \<Rightarrow> string \<Rightarrow> string \<Rightarrow> string \<Rightarrow> metadata option \<Rightarrow> nat
     \<Rightarrow> (sqlite_error + unit) \<times> database" where
  "add_message db session_id role content metadata now =
     (let conn = connect;
          db1 = snd (create_session db session_id None now);
          db2 = sql_update_session db1 session_id now
      in case sql_insert_message conn db2 session_id role content (or_empty metadata) now of
           Inr db3 \<Rightarrow> (Inr (), db3)
         | Inl e \<Rightarrow> (Inl e, db1))"

text \<open>What a reader of the database file can see while \<^verbatim>\<open>add_message\<close> runs: the
  database after the nested \<^verbatim>\<open>create_session\<close> returned (it has committed its
  insertion, or left the file as it was for a duplicate), and then the database after
  \<^verbatim>\<open>conn.commit()\<close> of the outer connection. The update and the insertion before that
  commit are seen by no other connection.\<close>

definition add_message_commits ::
  "database \<Rightarrow> string \<Rightarrow> string \<Rightarrow> string \<Rightarrow> metadata option \<Rightarrow> nat
     \<Rightarrow> (sqlite_error + unit) \<times> database list" where
  "add_message_commits db session_id role content metadata now =
     (let conn = connect;
          db1 = snd (create_session db session_id None now);
          db2 = sql_update_session db1 session_id now
      in case sql_insert_message conn db2 session_id role content (or_empty metadata) now of
           Inr db3 \<Rightarrow> (Inr (), [db1, db3])
         | Inl e \<Rightarrow> (Inl e, [db1]))"

record message_dict =
  role :: string
  content :: string
  timestamp :: nat

definition to_message_dict :: "message_row \<Rightarrow> message_dict" where
  "to_message_dict row = \<lparr>role = m_role row, content = m_content row,
                          timestamp = m_timestamp row\<rparr>"

text \<open>\<^verbatim>\<open>get_messages\<close>: \<^verbatim>\<open>if limit:\<close> adds the \<^verbatim>\<open>LIMIT\<close> clause for a limit that is
  neither None nor 0, and the limit is then bound as a parameter. The exception of the
  binding is not caught.\<close>

definition get_messages ::
  "database \<Rightarrow> string \<Rightarrow> int option \<Rightarrow> overflow_error + message_dict list" where
  "get_messages db session_id limit =
     (let rows = sql_select_messages db session_id;
          rows' = (case limit of
                     None \<Rightarrow> Inr rows
                   | Some n \<Rightarrow> if n = 0 then Inr rows
                              else (case bind_int n of
                                      Inl e \<Rightarrow> Inl e
                                    | Inr n' \<Rightarrow> Inr (sql_limit n' rows)))
      in case rows' of
           Inl e \<Rightarrow> Inl e
         | Inr fetched \<Rightarrow> Inr (map to_message_dict fetched))"

record session_info =
  session_id :: string
  created_at :: nat
  updated_at :: nat
  metadata :: metadata
  message_count :: nat

text \<open>\<^verbatim>\<open>get_session_info\<close>: \<^verbatim>\<open>fetchone\<close> gives the first row or None.\<close>

definition get_session_info :: "database \<Rightarrow> string \<Rightarrow> session_info option" where
  "get_session_info db sid =
     (case filter (\<lambda>s. s_session_id s = sid) (sessions db) of
        [] \<Rightarrow> None
      | row # _ \<Rightarrow> Some \<lparr>session_id = s_session_id row, created_at = s_created_at row,
                         updated_at = s_updated_at row, metadata = s_metadata row,
                         message_count = length (filter (owned_by sid) (messages db))\<rparr>)"

text \<open>\<^verbatim>\<open>delete_session\<close>: True when the statement deleted a row.\<close>

definition delete_session :: "database \<Rightarrow> string \<Rightarrow> bool \<times> database" where
  "delete_session db sid =
     (let conn = connect;
          (rowcount, db') = sql_delete_session conn db sid
      in (0 < rowcount, db'))"


subsection \<open>Sequences of appends\<close>

text \<open>One \<^verbatim>\<open>add_message\<close> call: its arguments and the clock reading it gets.\<close>

record append_call =
  c_session_id :: string
  c_role :: string
  c_content :: string
  c_metadata :: "metadata option"
  c_now :: nat

fun appends :: "database \<Rightarrow> append_call list \<Rightarrow> database" where
  "appends db [] = db"
| "appends db (c # cs) =
     appends (snd (add_message db (c_session_id c) (c_role c) (c_content c)
                     (c_metadata c) (c_now c))) cs"

text \<open>The rows a sequence of appends writes, the first with the id after \<open>n\<close>.\<close>

fun rows_of :: "nat \<Rightarrow> append_call list \<Rightarrow> message_row list" where
  "rows_of n [] = []"
| "rows_of n (c # cs) =
     \<lparr>m_id = Suc n, m_session_id = c_session_id c, m_role = c_role c,
      m_content = c_content c, m_timestamp = c_now c,
      m_metadata = or_empty (c_metadata c)\<rparr> # rows_of (Suc n) cs"

text \<open>The order of the pairs (timestamp, id).\<close>

definition ts_id_less :: "message_row \<Rightarrow> message_row \<Rightarrow> bool" where
  "ts_id_less a b =
     (m_timestamp a < m_timestamp b \<or> (m_timestamp a = m_timestamp b \<and> m_id a < m_id b))"

text \<open>What the appends of one session look like to a reader, in the order of the calls.\<close>

definition appended :: "string \<Rightarrow> append_call list \<Rightarrow> message_dict list" where
  "appended sid calls =
     map (\<lambda>c. \<lparr>role = c_role c, content = c_content c, timestamp = c_now c\<rparr>)
         (filter (\<lambda>c. c_session_id c = sid) calls)"

text \<open>What the \<^verbatim>\<open>UPDATE\<close> of \<open>sql_update_session\<close> does to one row.\<close>

definition touch :: "string \<Rightarrow> nat \<Rightarrow> session_row \<Rightarrow> session_row" where
  "touch sid now s = (if s_session_id s = sid then s\<lparr>s_updated_at := now\<rparr> else s)"

section \<open>The agent (src/agent.py)\<close>

text \<open>
  The LangChain executor is outside the repository. What it answers is a parameter:
  \<open>executor_invoke\<close> gives the result dict of \<^verbatim>\<open>agent_executor.invoke\<close> or the text
  \<^verbatim>\<open>str(e)\<close> of the \<^verbatim>\<open>Exception\<close> it raised; \<open>executor_astream\<close> gives the chunks
  of \<^verbatim>\<open>agent_executor.astream\<close> and, when the iteration ends in an \<^verbatim>\<open>Exception\<close>,
  its text. Both depend on the agent they belong to, which carries the temperature and
  the token limit its model was built with.
\<close>

record settings =
  openai_temperature :: real
  openai_max_tokens :: int

record chat_agent =
  temperature :: real
  max_tokens :: int

datatype lc_message = HumanMessage string | AIMessage string

text \<open>The dict \<^verbatim>\<open>invoke\<close> returns: the value under \<^verbatim>\<open>output\<close> and the list under
  \<^verbatim>\<open>intermediate_steps\<close>, when the key is there. A step is a tuple of objects; of each
  object the model keeps its \<^verbatim>\<open>tool\<close> attribute, when it has one.\<close>

record invoke_result =
  r_output :: "string option"
  r_intermediate_steps :: "string option list list option"

text \<open>A chunk of \<^verbatim>\<open>agent_executor.astream\<close>: the value under \<^verbatim>\<open>output\<close>, and the
  list \<^verbatim>\<open>chunk["agent"]["messages"]\<close>, when the keys are there; of each message its
  \<^verbatim>\<open>content\<close> attribute, when it has one.\<close>

record executor_chunk =
  k_output :: "string option"
  k_agent_messages :: "string option list option"

record langchain =
  executor_invoke :: "chat_agent \<Rightarrow> string \<Rightarrow> lc_message list \<Rightarrow> string + invoke_result"
  executor_astream ::
    "chat_agent \<Rightarrow> string \<Rightarrow> lc_message list \<Rightarrow> executor_chunk list \<times> string option"

text \<open>\<^verbatim>\<open>temperature or settings.openai_temperature\<close>: None and 0 are both falsy.\<close>

definition or_default :: "'a::zero option \<Rightarrow> 'a \<Rightarrow> 'a" where
  "or_default v d = (case v of None \<Rightarrow> d | Some x \<Rightarrow> if x = 0 then d else x)"

definition ChatAgent :: "settings \<Rightarrow> real option \<Rightarrow> int option \<Rightarrow> chat_agent" where
  "ChatAgent cfg temperature' max_tokens' =
     \<lparr>temperature = or_default temperature' (openai_temperature cfg),
      max_tokens = or_default max_tokens' (openai_max_tokens cfg)\<rparr>"

text \<open>\<^verbatim>\<open>str.lower\<close> on the ASCII letters.\<close>

definition lower_char :: "char \<Rightarrow> char" where
  "lower_char c = (let n = (of_char c :: nat)
                   in if 65 \<le> n \<and> n \<le> 90 then char_of (n + 32) else c)"

definition format_chat_history :: "message_dict list \<Rightarrow> lc_message list" where
  "format_chat_history msgs =
     concat (map (\<lambda>msg. let role' = map lower_char (role msg); content' = content msg
                         in if role' = ''user'' then [HumanMessage content']
                            else if role' = ''assistant'' then [AIMessage content']
                            else []) msgs)"

record run_result =
  rr_output :: string
  rr_tools_used :: "string list"
  rr_intermediate_steps :: "string option list list"

definition tool_names :: "string option list list \<Rightarrow> string list" where
  "tool_names steps =
     concat (map (\<lambda>step. case step of
                            [] \<Rightarrow> []
                          | action # _ \<Rightarrow> [case action of Some tool \<Rightarrow> tool
                                                          | None \<Rightarrow> ''unknown'']) steps)"

text \<open>\<^verbatim>\<open>ChatAgent.run\<close>: every \<^verbatim>\<open>Exception\<close> of the executor is caught and
  answered with the apology.\<close>

definition run ::
  "langchain \<Rightarrow> chat_agent \<Rightarrow> string \<Rightarrow> message_dict list \<Rightarrow> run_result" where
  "run lc self user_input chat_history =
     (let history = format_chat_history chat_history
      in case executor_invoke lc self user_input history of
           Inr result \<Rightarrow>
             \<lparr>rr_output = (case r_output result of Some out \<Rightarrow> out | None \<Rightarrow> []),
              rr_tools_used = (case r_intermediate_steps result of
                              Some steps \<Rightarrow> tool_names steps | None \<Rightarrow> []),
              rr_intermediate_steps = (case r_intermediate_steps result of
                                      Some steps \<Rightarrow> steps | None \<Rightarrow> [])\<rparr>
         | Inl e \<Rightarrow>
             \<lparr>rr_output = ''I encountered an error: '' @ e @ ''. Please try again.'',
              rr_tools_used = [], rr_intermediate_steps = []\<rparr>)"

definition chunk_yields :: "executor_chunk \<Rightarrow> string list" where
  "chunk_yields chunk =
     (case k_output chunk of
        Some out \<Rightarrow> [out]
      | None \<Rightarrow> (case k_agent_messages chunk of
                   Some msgs \<Rightarrow> concat (map (\<lambda>m. case m of Some c \<Rightarrow> [c] | None \<Rightarrow> []) msgs)
                 | None \<Rightarrow> []))"

text \<open>\<^verbatim>\<open>ChatAgent.astream\<close>: the strings it yields. An \<^verbatim>\<open>Exception\<close> of the executor
  is caught and yielded as a last string, after which the generator ends as one whose
  executor ended.\<close>

definition astream ::
  "langchain \<Rightarrow> chat_agent \<Rightarrow> string \<Rightarrow> message_dict list \<Rightarrow> string list" where
  "astream lc self user_input chat_history =
     (let history = format_chat_history chat_history;
          (chunks, fault) = executor_astream lc self user_input history
      in concat (map chunk_yields chunks) @
         (case fault of None \<Rightarrow> [] | Some e \<Rightarrow> [''Error: '' @ e]))"

text \<open>\<^verbatim>\<open>get_agent\<close> with the global \<^verbatim>\<open>agent\<close> it reads and writes.\<close>

definition get_agent ::
  "settings \<Rightarrow> chat_agent option \<Rightarrow> real option \<Rightarrow> int option
     \<Rightarrow> chat_agent \<times> chat_agent option" where
  "get_agent cfg agent temperature' max_tokens' =
     (case agent of
        None \<Rightarrow> (let a = ChatAgent cfg temperature' max_tokens' in (a, Some a))
      | Some a \<Rightarrow> (a, Some a))"

section \<open>The endpoints (src/main.py)\<close>

record chat_request =
  q_message :: string
  q_session_id :: string
  q_stream :: bool
  q_temperature :: "real option"
  q_max_tokens :: "int option"

record chat_response =
  p_response :: string
  p_session_id :: string
  p_tools_used :: "string list"
  p_tokens_used :: "int option"
  p_finish_reason :: "string option"

record http_exception =
  status_code :: nat
  detail :: string

text \<open>The globals of the process: the store behind \<^verbatim>\<open>memory\<close> and \<^verbatim>\<open>agent\<close>.\<close>

record process =
  memory :: database
  agent :: "chat_agent option"

text \<open>\<^verbatim>\<open>str(e)\<close>\<close>

definition error_text :: "sqlite_error \<Rightarrow> string" where
  "error_text e = (case e of IntegrityError msg \<Rightarrow> msg)"

definition overflow_text :: "overflow_error \<Rightarrow> string" where
  "overflow_text e = (case e of OverflowError msg \<Rightarrow> msg)"

text \<open>The steps both endpoints start with: get or create the session, read the history,
  save the user message, get the agent. The clock is read at \<open>t0\<close> by the creation and
  at \<open>t1\<close> by the append. An exception of a step ends them; the result then is its
  text \<^verbatim>\<open>str(e)\<close>, which is all the handlers of the endpoints read.\<close>

definition prepare ::
  "settings \<Rightarrow> process \<Rightarrow> chat_request \<Rightarrow> nat \<Rightarrow> nat
     \<Rightarrow> (string + message_dict list \<times> chat_agent) \<times> process" where
  "prepare cfg st request t0 t1 =
     (let db0 = (case get_session_info (memory st) (q_session_id request) of
                   None \<Rightarrow> snd (create_session (memory st) (q_session_id request) None t0)
                 | Some _ \<Rightarrow> memory st)
      in case get_messages db0 (q_session_id request) None of
           Inl e \<Rightarrow> (Inl (overflow_text e), st\<lparr>memory := db0\<rparr>)
         | Inr chat_history \<Rightarrow>
             (case add_message db0 (q_session_id request) ''user'' (q_message request)
                     None t1 of
                (Inl e, db1) \<Rightarrow> (Inl (error_text e), st\<lparr>memory := db1\<rparr>)
              | (Inr _, db1) \<Rightarrow>
                  (let (a, g) = get_agent cfg (agent st) (q_temperature request)
                                  (q_max_tokens request)
                   in (Inr (chat_history, a), \<lparr>memory = db1, agent = g\<rparr>))))"

text \<open>\<^verbatim>\<open>POST /chat\<close>. An exception of any step is answered with status 500.\<close>

definition chat ::
  "langchain \<Rightarrow> settings \<Rightarrow> process \<Rightarrow> chat_request \<Rightarrow> nat \<Rightarrow> nat \<Rightarrow> nat
     \<Rightarrow> (http_exception + chat_response) \<times> process" where
  "chat lc cfg st request t0 t1 t2 =
     (case prepare cfg st request t0 t1 of
        (Inl e, st1) \<Rightarrow>
          (Inl \<lparr>status_code = 500, detail = ''Chat processing error: '' @ e\<rparr>, st1)
      | (Inr (chat_history, a), st1) \<Rightarrow>
          (let result = run lc a (q_message request) chat_history
           in case add_message (memory st1) (q_session_id request) ''assistant''
                     (rr_output result)
                     (Some [(''tools_used'', JArray (map JString (rr_tools_used result)))]) t2 of
                (Inl e, db2) \<Rightarrow>
                  (Inl \<lparr>status_code = 500,
                        detail = ''Chat processing error: '' @ error_text e\<rparr>,
                   st1\<lparr>memory := db2\<rparr>)
              | (Inr _, db2) \<Rightarrow>
                  (Inr \<lparr>p_response = rr_output result, p_session_id = q_session_id request,
                        p_tools_used = rr_tools_used result, p_tokens_used = None,
                        p_finish_reason = None\<rparr>,
                   st1\<lparr>memory := db2\<rparr>)))"

text \<open>\<^verbatim>\<open>POST /chat/stream\<close> answers with a \<^verbatim>\<open>StreamingResponse\<close> around the generator
  \<^verbatim>\<open>generate()\<close>, which has not run yet. The closure keeps what the generator reads.\<close>

record generator =
  g_agent :: chat_agent
  g_request :: chat_request
  g_chat_history :: "message_dict list"

definition chat_stream ::
  "settings \<Rightarrow> process \<Rightarrow> chat_request \<Rightarrow> nat \<Rightarrow> nat
     \<Rightarrow> (http_exception + generator) \<times> process" where
  "chat_stream cfg st request t0 t1 =
     (case prepare cfg st request t0 t1 of
        (Inl e, st1) \<Rightarrow>
          (Inl \<lparr>status_code = 500, detail = ''Streaming error: '' @ e\<rparr>, st1)
      | (Inr (chat_history, a), st1) \<Rightarrow>
          (Inr \<lparr>g_agent = a, g_request = request, g_chat_history = chat_history\<rparr>, st1))"

text \<open>The consumer of the stream resumes the generator for one frame after the other.
  It either reads until the generator ends, or disconnects after some number of frames:
  the task is then cancelled where it waits, at the \<^verbatim>\<open>yield\<close> of the last frame it
  produced or inside the \<^verbatim>\<open>async for\<close> waiting for the next chunk.\<close>

datatype consumer = ReadsAll | DisconnectsAfter nat

datatype gen_event = Yield string | AddMessage string

datatype gen_end = Finished | Cancelled | Raised sqlite_error

definition sse :: "string \<Rightarrow> string" where
  "sse chunk = ''data: '' @ chunk @ [CHR 0x0A, CHR 0x0A]"

definition done_frame :: string where
  "done_frame = ''data: [DONE]'' @ [CHR 0x0A, CHR 0x0A]"

definition pulled :: "consumer \<Rightarrow> consumer" where
  "pulled c = (case c of ReadsAll \<Rightarrow> ReadsAll | DisconnectsAfter k \<Rightarrow> DisconnectsAfter (k - 1))"

text \<open>The \<^verbatim>\<open>async for\<close> loop of \<^verbatim>\<open>generate()\<close>: the frames it yields, and
  \<^verbatim>\<open>full_response\<close> when the loop ran to its end (None when it was cancelled).\<close>

fun stream_loop :: "string list \<Rightarrow> consumer \<Rightarrow> string \<Rightarrow> string list \<times> string option" where
  "stream_loop [] c full_response =
     ([], if c = DisconnectsAfter 0 then None else Some full_response)"
| "stream_loop (chunk # rest) c full_response =
     (if c = DisconnectsAfter 0 then ([], None)
      else (let (frames, r) = stream_loop rest (pulled c) (full_response @ chunk)
            in (sse chunk # frames, r)))"

text \<open>\<^verbatim>\<open>generate()\<close>, run on the store as it is when the stream is consumed: the
  events in their order, how the generator ended, and the store it leaves.\<close>

definition generate ::
  "langchain \<Rightarrow> generator \<Rightarrow> database \<Rightarrow> consumer \<Rightarrow> nat
     \<Rightarrow> gen_event list \<times> gen_end \<times> database" where
  "generate lc g db c now =
     (case stream_loop (astream lc (g_agent g) (q_message (g_request g)) (g_chat_history g))
             c [] of
        (frames, None) \<Rightarrow> (map Yield frames, Cancelled, db)
      | (frames, Some full_response) \<Rightarrow>
          (case add_message db (q_session_id (g_request g)) ''assistant'' full_response
                  None now of
             (Inl e, db') \<Rightarrow> (map Yield frames, Raised e, db')
           | (Inr _, db') \<Rightarrow>
               (map Yield frames @ [AddMessage full_response, Yield done_frame],
                Finished, db')))"


section \<open>Concrete runs\<close>

text \<open>The run of \<^verbatim>\<open>test_delete_session\<close>: create a session, add a message, delete the
  session.\<close>

definition deleted :: "bool \<times> database" where
  "deleted =
     delete_session
       (snd (add_message (snd (create_session init_database ''test-session-1'' None 1))
               ''test-session-1'' ''user'' ''Test'' None 2))
       ''test-session-1''"

text \<open>Two appends to one session within one second.\<close>

definition first_append :: database where
  "first_append = snd (add_message init_database ''s1'' ''user'' ''Hello'' None 10)"

definition second_append :: database where
  "second_append = snd (add_message first_append ''s1'' ''assistant'' ''Hi there!'' None 10)"

text \<open>Three appends to one session and one to another, two of them within one second.\<close>

definition same_second :: "append_call list" where
  "same_second =
     [\<lparr>c_session_id = ''s1'', c_role = ''user'', c_content = ''Hello'',
       c_metadata = None, c_now = 100\<rparr>,
      \<lparr>c_session_id = ''s2'', c_role = ''user'', c_content = ''Other'',
       c_metadata = None, c_now = 100\<rparr>,
      \<lparr>c_session_id = ''s1'', c_role = ''assistant'', c_content = ''Hi there!'',
       c_metadata = None, c_now = 100\<rparr>,
      \<lparr>c_session_id = ''s1'', c_role = ''user'', c_content = ''Bye'',
       c_metadata = None, c_now = 101\<rparr>]"

text \<open>Two appends between which the clock of the server was set back.\<close>

definition clock_set_back :: "append_call list" where
  "clock_set_back =
     [\<lparr>c_session_id = ''s1'', c_role = ''user'', c_content = ''Hello'',
       c_metadata = None, c_now = 10\<rparr>,
      \<lparr>c_session_id = ''s1'', c_role = ''assistant'', c_content = ''Hi there!'',
       c_metadata = None, c_now = 5\<rparr>]"

text \<open>The defaults of \<^verbatim>\<open>Settings\<close> in src/config.py.\<close>

definition default_settings :: settings where
  "default_settings = \<lparr>openai_temperature = 7 / 10, openai_max_tokens = 1000\<rparr>"

text \<open>The process at its start: an empty store, no agent yet.\<close>

definition new_process :: process where
  "new_process = \<lparr>memory = init_database, agent = None\<rparr>"

definition hi_request :: chat_request where
  "hi_request = \<lparr>q_message = ''Hi'', q_session_id = ''s1'', q_stream = False,
                  q_temperature = None, q_max_tokens = None\<rparr>"

text \<open>An executor whose \<^verbatim>\<open>invoke\<close> raises, and whose \<^verbatim>\<open>astream\<close> gives one chunk and
  then raises.\<close>

definition failing_executor :: langchain where
  "failing_executor =
     \<lparr>executor_invoke = (\<lambda>a user_input history. Inl ''boom''),
      executor_astream = (\<lambda>a user_input history.
         ([\<lparr>k_output = Some ''Hel'', k_agent_messages = None\<rparr>], Some ''boom''))\<rparr>"

text \<open>An executor that works, and answers by the temperature of the agent it serves.\<close>

definition working_executor :: langchain where
  "working_executor =
     \<lparr>executor_invoke = (\<lambda>a user_input history.
         Inr \<lparr>r_output = Some (if temperature a = 1 / 5 then ''cold'' else ''warm''),
              r_intermediate_steps = Some [[Some ''calculator'', None]]\<rparr>),
      executor_astream = (\<lambda>a user_input history.
         ([\<lparr>k_output = None, k_agent_messages = Some [Some ''Hel'', None]\<rparr>,
           \<lparr>k_output = Some ''lo'', k_agent_messages = None\<rparr>], None))\<rparr>"

text \<open>The generator that \<^verbatim>\<open>POST /chat/stream\<close> answers the first request with, and the
  store it leaves.\<close>

definition opened_stream :: "generator \<times> database" where
  "opened_stream =
     (case chat_stream default_settings new_process hi_request 1 1 of
        (r, st) \<Rightarrow> (projr r, memory st))"

text \<open>The process after a first \<^verbatim>\<open>POST /chat\<close> without overrides.\<close>

definition warmed :: process where
  "warmed = snd (chat working_executor default_settings new_process hi_request 1 1 2)"

section \<open>Properties of the store\<close>

subsection \<open>Sessions\<close>

lemma create_session_messages [simp]:
  "messages (snd (create_session db sid md now)) = messages db"
  "seq (snd (create_session db sid md now)) = seq db"
  by (auto simp: create_session_def sql_insert_session_def
           split: sum.splits sqlite_error.splits)

lemma create_session_new:
  "sid \<notin> set (session_ids db) \<Longrightarrow>
   create_session db sid md now =
     (True, db\<lparr>sessions := sessions db @
        [\<lparr>s_session_id = sid, s_created_at = now, s_updated_at = now,
          s_metadata = or_empty md\<rparr>]\<rparr>)"
  by (simp add: create_session_def sql_insert_session_def)

lemma create_session_existing:
  "sid \<in> set (session_ids db) \<Longrightarrow> create_session db sid md now = (False, db)"
  by (simp add: create_session_def sql_insert_session_def)

lemma create_session_present:
  "sid \<in> set (session_ids (snd (create_session db sid md now)))"
  by (cases "sid \<in> set (session_ids db)")
     (simp_all add: create_session_new create_session_existing, simp add: session_ids_def)

lemma delete_session_result:
  "delete_session db sid =
     (sid \<in> set (session_ids db),
      db\<lparr>sessions := filter (\<lambda>s. s_session_id s \<noteq> sid) (sessions db)\<rparr>)"
  by (auto simp: delete_session_def sql_delete_session_def connect_def Let_def
        session_ids_def filter_empty_conv)

lemma delete_session_absent:
  "sid \<notin> set (session_ids (snd (delete_session db sid)))"
  by (auto simp: delete_session_result session_ids_def)

text \<open>
  \<^bold>\<open>C6.\<close> \<^verbatim>\<open>create_session\<close> answers True for an id that has no row, and appends the
  row; it answers False for an id that has one, and leaves the database as it was. It
  has no failing outcome: the \<^verbatim>\<open>IntegrityError\<close> of the duplicate is caught inside.
  Starting without the id, creating twice answers True and then False, the second call
  changing nothing; deleting then answers True, and a third creation answers True again.
\<close>

theorem create_session_idempotent:
  "(sid \<notin> set (session_ids db) \<longrightarrow>
      fst (create_session db sid md now) = True \<and>
      sessions (snd (create_session db sid md now)) = sessions db @
        [\<lparr>s_session_id = sid, s_created_at = now, s_updated_at = now,
          s_metadata = or_empty md\<rparr>]) \<and>
   (sid \<in> set (session_ids db) \<longrightarrow> create_session db sid md now = (False, db)) \<and>
   (sid \<notin> set (session_ids db) \<longrightarrow>
      (let (r1, db1) = create_session db sid md now;
           (r2, db2) = create_session db1 sid md' now';
           (r3, db3) = delete_session db2 sid;
           (r4, db4) = create_session db3 sid md'' now''
       in r1 = True \<and> r2 = False \<and> db2 = db1 \<and> r3 = True \<and> r4 = True))"
proof (intro conjI impI)
  assume new: "sid \<notin> set (session_ids db)"
  define db1 where "db1 = snd (create_session db sid md now)"
  have c1: "create_session db sid md now = (True, db1)"
    unfolding db1_def using new by (simp add: create_session_new)
  have in1: "sid \<in> set (session_ids db1)"
    unfolding db1_def by (rule create_session_present)
  have c2: "create_session db1 sid md' now' = (False, db1)"
    using in1 by (rule create_session_existing)
  define db3 where "db3 = snd (delete_session db1 sid)"
  have c3: "delete_session db1 sid = (True, db3)"
    unfolding db3_def using in1 by (simp add: delete_session_result)
  have out3: "sid \<notin> set (session_ids db3)"
    unfolding db3_def by (rule delete_session_absent)
  have c4: "create_session db3 sid md'' now'' =
      (True, db3\<lparr>sessions := sessions db3 @
        [\<lparr>s_session_id = sid, s_created_at = now'', s_updated_at = now'',
          s_metadata = or_empty md''\<rparr>]\<rparr>)"
    using out3 by (rule create_session_new)
  show "let (r1, db1) = create_session db sid md now;
           (r2, db2) = create_session db1 sid md' now';
           (r3, db3) = delete_session db2 sid;
           (r4, db4) = create_session db3 sid md'' now''
       in r1 = True \<and> r2 = False \<and> db2 = db1 \<and> r3 = True \<and> r4 = True"
    by (simp add: c1 c2 c3 c4)
qed (simp_all add: create_session_new create_session_existing)

theorem create_session_idempotent_witness:
  "''s1'' \<notin> set (session_ids init_database) \<and>
   create_session init_database ''s1'' None 7 =
     (True, \<lparr>sessions = [\<lparr>s_session_id = ''s1'', s_created_at = 7, s_updated_at = 7,
                           s_metadata = []\<rparr>], messages = [], seq = 0\<rparr>) \<and>
   create_session (snd (create_session init_database ''s1'' None 7)) ''s1'' None 8 =
     (False, snd (create_session init_database ''s1'' None 7))"
proof -
  have absent: "''s1'' \<notin> set (session_ids init_database)"
    by (simp add: init_database_def session_ids_def)
  have present:
    "''s1'' \<in> set (session_ids (snd (create_session init_database ''s1'' None 7)))"
    by (simp add: create_session_def sql_insert_session_def init_database_def
        session_ids_def)
  from create_session_idempotent [of "''s1''" init_database None 7 None 8 None 9]
       create_session_idempotent
         [of "''s1''" "snd (create_session init_database ''s1'' None 7)" None 8 None 9 None 10]
       absent present
  show ?thesis
    by (simp add: init_database_def or_empty_def prod_eq_iff)
qed

subsection \<open>Appending\<close>

lemma add_message_result:
  "add_message db sid r c md now =
     (Inr (),
      (sql_update_session (snd (create_session db sid None now)) sid now)
        \<lparr>messages := messages db @
           [\<lparr>m_id = Suc (seq db), m_session_id = sid, m_role = r, m_content = c,
             m_timestamp = now, m_metadata = or_empty md\<rparr>],
         seq := Suc (seq db)\<rparr>)"
  by (simp add: add_message_def connect_def sql_insert_message_def sql_update_session_def
      Let_def)

lemma add_message_succeeds: "fst (add_message db sid r c md now) = Inr ()"
  by (simp add: add_message_result)

lemma add_message_messages:
  "messages (snd (add_message db sid r c md now)) = messages db @
     [\<lparr>m_id = Suc (seq db), m_session_id = sid, m_role = r, m_content = c,
       m_timestamp = now, m_metadata = or_empty md\<rparr>]"
  by (simp add: add_message_result)

lemma add_message_seq: "seq (snd (add_message db sid r c md now)) = Suc (seq db)"
  by (simp add: add_message_result)

lemma add_message_sessions:
  "sessions (snd (add_message db sid r c md now)) =
     map (touch sid now) (sessions (snd (create_session db sid None now)))"
  by (simp add: add_message_result sql_update_session_def touch_def [abs_def])

lemma touch_id [simp]: "s_session_id (touch sid now s) = s_session_id s"
  by (simp add: touch_def)

lemma filter_touch_present:
  "sid \<in> set (map s_session_id rows) \<Longrightarrow>
   \<exists>row rest. filter (\<lambda>s. s_session_id s = sid) (map (touch sid now) rows) = row # rest \<and>
      s_updated_at row = now"
  by (induction rows) (auto simp: touch_def)

lemma filter_touch_absent:
  "sid \<notin> set (map s_session_id rows) \<Longrightarrow>
   filter (\<lambda>s. s_session_id s = sid) (map (touch sid now) rows) = []"
  by (induction rows) auto

lemma add_message_present:
  "sid \<in> set (session_ids (snd (add_message db sid r c md now)))"
  using create_session_present [of sid db None now]
  by (simp add: session_ids_def add_message_sessions comp_def)

lemma add_message_updated_at:
  "map_option updated_at (get_session_info (snd (add_message db sid r c md now)) sid) =
     Some now"
proof -
  have "sid \<in> set (map s_session_id (sessions (snd (create_session db sid None now))))"
    using create_session_present [of sid db None now] by (simp add: session_ids_def)
  from filter_touch_present [OF this, of now]
  show ?thesis
    by (auto simp: get_session_info_def add_message_sessions)
qed

lemma add_message_unseen:
  assumes "sid \<notin> set (session_ids db)"
  shows "get_session_info (snd (add_message db sid r c md now)) sid =
     Some \<lparr>session_id = sid, created_at = now, updated_at = now, metadata = [],
           message_count = Suc (length (filter (owned_by sid) (messages db)))\<rparr>"
proof -
  have "sid \<notin> set (map s_session_id (sessions db))"
    using assms by (simp add: session_ids_def)
  from filter_touch_absent [OF this, of now]
  show ?thesis
    using assms
    by (simp add: get_session_info_def add_message_sessions create_session_new
        add_message_messages touch_def or_empty_def owned_by_def)
qed

lemma add_message_commits_result:
  "add_message_commits db sid r c md now =
     (Inr (), [snd (create_session db sid None now), snd (add_message db sid r c md now)])"
  by (simp add: add_message_commits_def add_message_def connect_def sql_insert_message_def
      Let_def)

text \<open>
  \<^bold>\<open>C7.\<close> \<^verbatim>\<open>add_message\<close> succeeds for every session id, seen or not, and leaves
  the last of the databases it commits. It commits twice: every database a reader can
  see from the first commit on has the session row; the first of them has the messages
  that were there and the second has exactly one more, the one appended. So the session
  row is there before the message can be read. The \<^verbatim>\<open>updated_at\<close> of the session is
  set to the clock reading of the append: it is later than before only when the clock
  reads later than the value that was there. For an id without a row the session is
  created with empty metadata.
\<close>

theorem add_message_get_or_create:
  "add_message db sid r c md now =
     (Inr (), last (snd (add_message_commits db sid r c md now))) \<and>
   fst (add_message_commits db sid r c md now) = Inr () \<and>
   list_all (\<lambda>d. sid \<in> set (session_ids d)) (snd (add_message_commits db sid r c md now)) \<and>
   map messages (snd (add_message_commits db sid r c md now)) =
     [messages db,
      messages db @
        [\<lparr>m_id = Suc (seq db), m_session_id = sid, m_role = r, m_content = c,
          m_timestamp = now, m_metadata = or_empty md\<rparr>]] \<and>
   map_option updated_at (get_session_info (snd (add_message db sid r c md now)) sid) =
     Some now \<and>
   (sid \<notin> set (session_ids db) \<longrightarrow>
      map_option metadata (get_session_info (snd (add_message db sid r c md now)) sid) =
        Some [])"
proof (intro conjI impI)
  show "add_message db sid r c md now =
     (Inr (), last (snd (add_message_commits db sid r c md now)))"
    using add_message_succeeds [of db sid r c md now]
    by (simp add: add_message_commits_result prod_eq_iff)
next
  assume "sid \<notin> set (session_ids db)"
  then show "map_option metadata (get_session_info (snd (add_message db sid r c md now)) sid) =
        Some []"
    by (simp add: add_message_unseen)
qed (simp_all add: add_message_commits_result create_session_present add_message_present
       add_message_messages add_message_updated_at)

theorem add_message_get_or_create_witness:
  "''s9'' \<notin> set (session_ids init_database) \<and>
   add_message_commits init_database ''s9'' ''user'' ''Hello'' None 3 =
     (Inr (),
      [\<lparr>sessions = [\<lparr>s_session_id = ''s9'', s_created_at = 3, s_updated_at = 3,
                      s_metadata = []\<rparr>],
        messages = [], seq = 0\<rparr>,
       \<lparr>sessions = [\<lparr>s_session_id = ''s9'', s_created_at = 3, s_updated_at = 3,
                      s_metadata = []\<rparr>],
        messages = [\<lparr>m_id = 1, m_session_id = ''s9'', m_role = ''user'',
                     m_content = ''Hello'', m_timestamp = 3, m_metadata = []\<rparr>],
        seq = 1\<rparr>]) \<and>
   add_message init_database ''s9'' ''user'' ''Hello'' None 3 =
     (Inr (), last (snd (add_message_commits init_database ''s9'' ''user'' ''Hello'' None 3))) \<and>
   map_option metadata
     (get_session_info (snd (add_message init_database ''s9'' ''user'' ''Hello'' None 3))
        ''s9'') = Some []"
proof -
  have absent: "''s9'' \<notin> set (session_ids init_database)"
    by (simp add: init_database_def session_ids_def)
  have run: "add_message_commits init_database ''s9'' ''user'' ''Hello'' None 3 =
     (Inr (),
      [\<lparr>sessions = [\<lparr>s_session_id = ''s9'', s_created_at = 3, s_updated_at = 3,
                      s_metadata = []\<rparr>],
        messages = [], seq = 0\<rparr>,
       \<lparr>sessions = [\<lparr>s_session_id = ''s9'', s_created_at = 3, s_updated_at = 3,
                      s_metadata = []\<rparr>],
        messages = [\<lparr>m_id = 1, m_session_id = ''s9'', m_role = ''user'',
                     m_content = ''Hello'', m_timestamp = 3, m_metadata = []\<rparr>],
        seq = 1\<rparr>])"
    by (simp add: add_message_commits_def connect_def create_session_def
        sql_insert_session_def sql_update_session_def sql_insert_message_def
        init_database_def session_ids_def or_empty_def)
  from add_message_get_or_create [of init_database "''s9''" "''user''" "''Hello''" None 3]
       absent
  have "add_message init_database ''s9'' ''user'' ''Hello'' None 3 =
     (Inr (), last (snd (add_message_commits init_database ''s9'' ''user'' ''Hello'' None 3)))"
    and "map_option metadata
     (get_session_info (snd (add_message init_database ''s9'' ''user'' ''Hello'' None 3))
        ''s9'') = Some []"
    by blast+
  then show ?thesis
    using absent run by simp
qed

text \<open>
  The claim as it is written, \<^verbatim>\<open>updated_at\<close> advancing on every append, fails for
  two appends within one second: the second leaves \<^verbatim>\<open>updated_at\<close> at the value it
  had.
\<close>

theorem add_message_get_or_create_counterexample:
  "map_option updated_at (get_session_info first_append ''s1'') = Some 10 \<and>
   map_option message_count (get_session_info first_append ''s1'') = Some 1 \<and>
   map_option updated_at (get_session_info second_append ''s1'') = Some 10 \<and>
   map_option message_count (get_session_info second_append ''s1'') = Some 2"
  by (simp add: first_append_def second_append_def add_message_result create_session_def
      sql_insert_session_def sql_update_session_def get_session_info_def init_database_def
      session_ids_def or_empty_def owned_by_def)

subsection \<open>Reading the history\<close>

lemma appends_messages: "messages (appends db cs) = messages db @ rows_of (seq db) cs"
  by (induction cs arbitrary: db) (simp_all add: add_message_messages add_message_seq)

lemma rows_of_ids: "\<forall>m \<in> set (rows_of n cs). n < m_id m"
  by (induction cs arbitrary: n) (auto simp: less_Suc_eq dest: Suc_lessD)

lemma rows_of_ascending: "sorted_wrt (<) (map m_id (rows_of n cs))"
  using rows_of_ids by (induction cs arbitrary: n) auto

lemma rows_of_timestamps: "map m_timestamp (rows_of n cs) = map c_now cs"
  by (induction cs arbitrary: n) auto

lemma filter_rows_of:
  "map to_message_dict (filter (owned_by sid) (rows_of n cs)) = appended sid cs"
  by (induction cs arbitrary: n) (auto simp: owned_by_def to_message_dict_def appended_def)

lemma insort_ts_id:
  "sorted_wrt ts_id_less ys \<Longrightarrow> \<forall>y \<in> set ys. m_id x < m_id y
     \<Longrightarrow> sorted_wrt ts_id_less (insort_key m_timestamp x ys)"
  by (induction ys) (auto simp: ts_id_less_def set_insort_key)

lemma sort_key_ts_id:
  "sorted_wrt (<) (map m_id rows) \<Longrightarrow> sorted_wrt ts_id_less (sort_key m_timestamp rows)"
  by (induction rows) (auto intro!: insort_ts_id)

lemma sorted_map_filter: "sorted (map f xs) \<Longrightarrow> sorted (map f (filter P xs))"
  by (induction xs) auto

lemma sorted_select: "sorted (map m_timestamp (sql_select_messages db sid))"
  by (simp add: sql_select_messages_def)

text \<open>
  \<^bold>\<open>C2.\<close> After any sequence of \<^verbatim>\<open>add_message\<close> calls on a new database, the rows
  that \<^verbatim>\<open>get_messages\<close> reads for a session are in strictly ascending order of
  (timestamp, id): the query orders by timestamp, and rows of one timestamp come in the
  order of their ids. When no append read an earlier clock value than the append before
  it, this is the order of the calls.
\<close>

theorem get_messages_append_order:
  "sorted_wrt ts_id_less (sql_select_messages (appends init_database calls) sid) \<and>
   (sorted (map c_now calls) \<longrightarrow>
      get_messages (appends init_database calls) sid None = Inr (appended sid calls))"
proof (intro conjI impI)
  have rows: "messages (appends init_database calls) = rows_of 0 calls"
    by (simp add: appends_messages init_database_def)
  have "sorted_wrt (<) (map m_id (filter (owned_by sid) (rows_of 0 calls)))"
    using rows_of_ascending [of 0 calls] by (simp add: sorted_wrt_map sorted_wrt_filter)
  then show "sorted_wrt ts_id_less (sql_select_messages (appends init_database calls) sid)"
    unfolding sql_select_messages_def rows by (rule sort_key_ts_id)
next
  assume mono: "sorted (map c_now calls)"
  have rows: "messages (appends init_database calls) = rows_of 0 calls"
    by (simp add: appends_messages init_database_def)
  have "sorted (map m_timestamp (rows_of 0 calls))"
    using mono by (simp add: rows_of_timestamps)
  then have "sorted (map m_timestamp (filter (owned_by sid) (rows_of 0 calls)))"
    by (rule sorted_map_filter)
  then have "sql_select_messages (appends init_database calls) sid =
      filter (owned_by sid) (rows_of 0 calls)"
    unfolding sql_select_messages_def rows by (rule sort_key_id_if_sorted)
  then show "get_messages (appends init_database calls) sid None = Inr (appended sid calls)"
    by (simp add: get_messages_def filter_rows_of)
qed

theorem get_messages_append_order_witness:
  "sorted (map c_now same_second) \<and>
   get_messages (appends init_database same_second) ''s1'' None =
     Inr [\<lparr>role = ''user'', content = ''Hello'', timestamp = 100\<rparr>,
          \<lparr>role = ''assistant'', content = ''Hi there!'', timestamp = 100\<rparr>,
          \<lparr>role = ''user'', content = ''Bye'', timestamp = 101\<rparr>]"
proof -
  have mono: "sorted (map c_now same_second)"
    by (simp add: same_second_def)
  have "appended ''s1'' same_second =
     [\<lparr>role = ''user'', content = ''Hello'', timestamp = 100\<rparr>,
      \<lparr>role = ''assistant'', content = ''Hi there!'', timestamp = 100\<rparr>,
      \<lparr>role = ''user'', content = ''Bye'', timestamp = 101\<rparr>]"
    by (simp add: appended_def same_second_def)
  with get_messages_append_order [of same_second "''s1''"] mono
  show ?thesis by simp
qed

text \<open>
  The claim as it is written, for every sequence of calls, fails when the clock is set
  back between two appends: the later message has the earlier timestamp and is read
  first.
\<close>

theorem get_messages_append_order_counterexample:
  "get_messages (appends init_database clock_set_back) ''s1'' None =
     Inr [\<lparr>role = ''assistant'', content = ''Hi there!'', timestamp = 5\<rparr>,
          \<lparr>role = ''user'', content = ''Hello'', timestamp = 10\<rparr>] \<and>
   appended ''s1'' clock_set_back =
     [\<lparr>role = ''user'', content = ''Hello'', timestamp = 10\<rparr>,
      \<lparr>role = ''assistant'', content = ''Hi there!'', timestamp = 5\<rparr>] \<and>
   get_messages (appends init_database clock_set_back) ''s1'' None \<noteq>
     Inr (appended ''s1'' clock_set_back)"
  by (simp add: clock_set_back_def appended_def add_message_messages add_message_seq
      init_database_def get_messages_def sql_select_messages_def owned_by_def
      to_message_dict_def or_empty_def)

lemma get_messages_all:
  "get_messages db sid None = Inr (map to_message_dict (sql_select_messages db sid))"
  by (simp add: get_messages_def)

lemma same_second_history:
  "get_messages (appends init_database same_second) ''s1'' None =
     Inr [\<lparr>role = ''user'', content = ''Hello'', timestamp = 100\<rparr>,
          \<lparr>role = ''assistant'', content = ''Hi there!'', timestamp = 100\<rparr>,
          \<lparr>role = ''user'', content = ''Bye'', timestamp = 101\<rparr>]"
  by (simp add: same_second_def add_message_messages add_message_seq
      init_database_def get_messages_def sql_select_messages_def owned_by_def
      to_message_dict_def or_empty_def)

text \<open>
  \<^bold>\<open>C8.\<close> With a limit \<open>n\<close> that is positive and fits an SQLite integer (below
  \<open>2 ^ 63\<close>), \<^verbatim>\<open>get_messages\<close> returns the first \<open>n\<close> messages of the full history,
  which is in ascending order of timestamp: the oldest \<open>n\<close>. With \<open>n\<close> at least the
  number of messages it returns the full history.
\<close>

theorem get_messages_limit_earliest:
  "0 < n \<Longrightarrow> n < 2 ^ 63 \<Longrightarrow>
     (\<exists>full. get_messages db sid None = Inr full \<and>
        get_messages db sid (Some n) = Inr (take (nat n) full) \<and>
        sorted (map timestamp full) \<and>
        (int (length full) \<le> n \<longrightarrow> get_messages db sid (Some n) = Inr full))"
  by (simp add: get_messages_def bind_int_def sql_limit_def take_map to_message_dict_def
      comp_def sorted_select)

theorem get_messages_limit_earliest_witness:
  "(0::int) < 2 \<and> (2::int) < 2 ^ 63 \<and>
   get_messages (appends init_database same_second) ''s1'' (Some 2) =
     Inr [\<lparr>role = ''user'', content = ''Hello'', timestamp = 100\<rparr>,
          \<lparr>role = ''assistant'', content = ''Hi there!'', timestamp = 100\<rparr>] \<and>
   (0::int) < 3 \<and> (3::int) < 2 ^ 63 \<and>
   get_messages (appends init_database same_second) ''s1'' (Some 3) =
     get_messages (appends init_database same_second) ''s1'' None"
proof -
  from get_messages_limit_earliest [of 2 "appends init_database same_second" "''s1''"]
       get_messages_limit_earliest [of 3 "appends init_database same_second" "''s1''"]
  show ?thesis
    by (simp add: same_second_history)
qed

text \<open>
  The claim as it is written, for every positive limit, fails at the limit \<open>2 ^ 63\<close>:
  the binding of the parameter raises and no message is returned.
\<close>

theorem get_messages_limit_earliest_counterexample:
  "(0::int) < 9223372036854775808 \<and>
   get_messages (appends init_database same_second) ''s1'' (Some 9223372036854775808) =
     Inl (OverflowError ''Python int too large to convert to SQLite INTEGER'')"
  by (simp add: get_messages_def bind_int_def)

text \<open>
  \<^bold>\<open>C9.\<close> A limit of 0 is falsy, so \<^verbatim>\<open>get_messages\<close> adds no \<^verbatim>\<open>LIMIT\<close> clause:
  \<^verbatim>\<open>limit=0\<close> returns the whole history, as no limit does.
\<close>

theorem get_messages_limit_zero:
  "get_messages db sid (Some 0) = get_messages db sid None"
  by (simp add: get_messages_def)

theorem get_messages_limit_zero_witness:
  "get_messages (appends init_database same_second) ''s1'' (Some 0) =
     Inr [\<lparr>role = ''user'', content = ''Hello'', timestamp = 100\<rparr>,
          \<lparr>role = ''assistant'', content = ''Hi there!'', timestamp = 100\<rparr>,
          \<lparr>role = ''user'', content = ''Bye'', timestamp = 101\<rparr>]"
proof -
  from get_messages_limit_zero [of "appends init_database same_second" "''s1''"]
  show ?thesis
    by (simp add: same_second_history)
qed

subsection \<open>Deleting\<close>

lemma delete_session_messages: "messages (snd (delete_session db sid)) = messages db"
  by (simp add: delete_session_def sql_delete_session_def connect_def Let_def)

lemma cascade_when_enforced:
  "sid \<in> set (session_ids db) \<Longrightarrow>
   filter (owned_by sid)
     (messages (snd (sql_delete_session \<lparr>foreign_keys = True\<rparr> db sid))) = []"
  by (auto simp: sql_delete_session_def Let_def session_ids_def filter_empty_conv)

text \<open>
  \<^bold>\<open>C1.\<close> The claim is that \<^verbatim>\<open>delete_session\<close> removes the session and every message
  it owns, so that \<^verbatim>\<open>get_messages\<close> is empty afterwards. On the run of
  \<^verbatim>\<open>test_delete_session\<close> the deletion answers True and the session is gone, but
  its message is still read: the statement deletes from \<^verbatim>\<open>sessions\<close> on a connection
  that does not enforce foreign keys, so the cascade the schema declares does not run
  (\<open>delete_session_messages\<close>); on a connection that enforces them it would
  (\<open>cascade_when_enforced\<close>).
\<close>

theorem delete_session_keeps_messages:
  "fst deleted = True \<and>
   get_session_info (snd deleted) ''test-session-1'' = None \<and>
   get_messages (snd deleted) ''test-session-1'' None =
     Inr [\<lparr>role = ''user'', content = ''Test'', timestamp = 2\<rparr>]"
  by code_simp

section \<open>Properties of the endpoints\<close>

lemma get_agent_initialized: "get_agent cfg (Some a) t m = (a, Some a)"
  by (simp add: get_agent_def)

lemma prepare_result:
  "prepare cfg st request t0 t1 =
     (let db0 = (case get_session_info (memory st) (q_session_id request) of
                   None \<Rightarrow> snd (create_session (memory st) (q_session_id request) None t0)
                 | Some _ \<Rightarrow> memory st)
      in (Inr (map to_message_dict (sql_select_messages db0 (q_session_id request)),
               fst (get_agent cfg (agent st) (q_temperature request) (q_max_tokens request))),
          \<lparr>memory = snd (add_message db0 (q_session_id request) ''user'' (q_message request) None t1),
           agent = snd (get_agent cfg (agent st) (q_temperature request) (q_max_tokens request))\<rparr>))"
  by (simp add: prepare_def Let_def add_message_result get_messages_all split: prod.splits)

lemma prepare_messages:
  "messages (memory (snd (prepare cfg st request t0 t1))) =
     messages (memory st) @
       [\<lparr>m_id = Suc (seq (memory st)), m_session_id = q_session_id request, m_role = ''user'',
         m_content = q_message request, m_timestamp = t1, m_metadata = []\<rparr>]"
  by (simp add: prepare_result Let_def add_message_messages or_empty_def split: option.splits)

lemma prepare_seq:
  "seq (memory (snd (prepare cfg st request t0 t1))) = Suc (seq (memory st))"
  by (simp add: prepare_result Let_def add_message_seq split: option.splits)

lemma chat_result:
  "chat lc cfg st request t0 t1 t2 =
    (let p = prepare cfg st request t0 t1;
         result = run lc (snd (projr (fst p))) (q_message request) (fst (projr (fst p)))
     in (Inr \<lparr>p_response = rr_output result, p_session_id = q_session_id request,
              p_tools_used = rr_tools_used result, p_tokens_used = None, p_finish_reason = None\<rparr>,
         (snd p)\<lparr>memory := snd (add_message (memory (snd p)) (q_session_id request) ''assistant''
                     (rr_output result)
                     (Some [(''tools_used'', JArray (map JString (rr_tools_used result)))]) t2)\<rparr>))"
  by (simp add: chat_def prepare_result Let_def add_message_result split: prod.splits)


text \<open>
  \<^bold>\<open>C5.\<close> When the executor raises an \<^verbatim>\<open>Exception\<close> with text \<open>e\<close> for the agent and
  the history of the request, \<^verbatim>\<open>POST /chat\<close> answers with a response (not with an
  HTTP error) whose text is \<^verbatim>\<open>I encountered an error: e. Please try again.\<close> and whose
  \<^verbatim>\<open>tools_used\<close> is empty; the store gains the user message and then an assistant
  message with that same text.
\<close>

theorem chat_agent_failure:
  assumes "fst (prepare cfg st request t0 t1) = Inr (h, a)"
      and "executor_invoke lc a (q_message request) (format_chat_history h) = Inl e"
  shows "fst (chat lc cfg st request t0 t1 t2) =
           Inr \<lparr>p_response = ''I encountered an error: '' @ e @ ''. Please try again.'',
                p_session_id = q_session_id request, p_tools_used = [],
                p_tokens_used = None, p_finish_reason = None\<rparr> \<and>
         messages (memory (snd (chat lc cfg st request t0 t1 t2))) =
           messages (memory st) @
           [\<lparr>m_id = Suc (seq (memory st)), m_session_id = q_session_id request,
             m_role = ''user'', m_content = q_message request, m_timestamp = t1,
             m_metadata = []\<rparr>,
            \<lparr>m_id = Suc (Suc (seq (memory st))), m_session_id = q_session_id request,
             m_role = ''assistant'',
             m_content = ''I encountered an error: '' @ e @ ''. Please try again.'',
             m_timestamp = t2, m_metadata = [(''tools_used'', JArray [])]\<rparr>]"
proof -
  have r: "run lc a (q_message request) h =
      \<lparr>rr_output = ''I encountered an error: '' @ e @ ''. Please try again.'',
       rr_tools_used = [], rr_intermediate_steps = []\<rparr>"
    using assms(2) by (simp add: run_def)
  show ?thesis
    using assms(1)
    by (simp add: chat_result Let_def r add_message_messages prepare_messages prepare_seq
        or_empty_def)
qed

lemma stream_loop_reads_all:
  "stream_loop chunks ReadsAll full = (map sse chunks, Some (full @ concat chunks))"
  by (induction chunks arbitrary: full) (simp_all add: pulled_def)

lemma stream_loop_disconnect:
  "k \<le> length chunks \<Longrightarrow>
   stream_loop chunks (DisconnectsAfter k) full = (map sse (take k chunks), None)"
proof (induction chunks arbitrary: k full)
  case Nil
  then show ?case by simp
next
  case (Cons c cs)
  show ?case
  proof (cases k)
    case 0
    then show ?thesis by simp
  next
    case (Suc j)
    with Cons.prems have "j \<le> length cs" by simp
    from Cons.IH [OF this] Suc show ?thesis
      by (simp add: pulled_def)
  qed
qed

lemma stream_loop_late:
  "length chunks < k \<Longrightarrow>
   stream_loop chunks (DisconnectsAfter k) full = (map sse chunks, Some (full @ concat chunks))"
proof (induction chunks arbitrary: k full)
  case Nil
  then show ?case by simp
next
  case (Cons c cs)
  then obtain j where k: "k = Suc j" and "length cs < j"
    by (cases k) auto
  from Cons.IH [OF this(2)] k show ?case
    by (simp add: pulled_def)
qed

lemma generate_reads_all:
  "generate lc g db ReadsAll now =
     (let chunks = astream lc (g_agent g) (q_message (g_request g)) (g_chat_history g)
      in (map Yield (map sse chunks) @ [AddMessage (concat chunks), Yield done_frame],
          Finished,
          snd (add_message db (q_session_id (g_request g)) ''assistant'' (concat chunks) None now)))"
  by (simp add: generate_def stream_loop_reads_all Let_def add_message_result)

lemma generate_disconnect:
  "k \<le> length (astream lc (g_agent g) (q_message (g_request g)) (g_chat_history g)) \<Longrightarrow>
   generate lc g db (DisconnectsAfter k) now =
     (map Yield (map sse (take k (astream lc (g_agent g) (q_message (g_request g)) (g_chat_history g)))),
      Cancelled, db)"
  by (simp add: generate_def stream_loop_disconnect)

lemma generate_late:
  "length (astream lc (g_agent g) (q_message (g_request g)) (g_chat_history g)) < k \<Longrightarrow>
   generate lc g db (DisconnectsAfter k) now = generate lc g db ReadsAll now"
  by (simp add: generate_def stream_loop_late stream_loop_reads_all)

text \<open>
  \<^bold>\<open>C4.\<close> When the consumer reads the stream to its end, \<^verbatim>\<open>generate()\<close> yields one
  frame for each chunk, then appends one assistant message whose content is the
  concatenation of the chunks, then yields the end marker; the store gains exactly that
  row. Whatever the consumer does, the store either is unchanged or has gained that one
  row: a message with part of the chunks is never written.
\<close>

theorem stream_saved_once:
  "(let chunks = astream lc (g_agent g) (q_message (g_request g)) (g_chat_history g);
        row = \<lparr>m_id = Suc (seq db), m_session_id = q_session_id (g_request g),
               m_role = ''assistant'', m_content = concat chunks, m_timestamp = now,
               m_metadata = []\<rparr>
    in generate lc g db ReadsAll now =
         (map Yield (map sse chunks) @ [AddMessage (concat chunks), Yield done_frame],
          Finished,
          snd (add_message db (q_session_id (g_request g)) ''assistant'' (concat chunks)
                 None now)) \<and>
       messages (snd (snd (generate lc g db ReadsAll now))) = messages db @ [row] \<and>
       (messages (snd (snd (generate lc g db c now))) = messages db \<or>
        messages (snd (snd (generate lc g db c now))) = messages db @ [row]))"
proof -
  define chunks where "chunks = astream lc (g_agent g) (q_message (g_request g)) (g_chat_history g)"
  have all: "generate lc g db ReadsAll now =
         (map Yield (map sse chunks) @ [AddMessage (concat chunks), Yield done_frame],
          Finished,
          snd (add_message db (q_session_id (g_request g)) ''assistant'' (concat chunks)
                 None now))"
    by (simp add: generate_reads_all chunks_def Let_def)
  have either: "messages (snd (snd (generate lc g db c now))) = messages db \<or>
        messages (snd (snd (generate lc g db c now))) = messages db @
          [\<lparr>m_id = Suc (seq db), m_session_id = q_session_id (g_request g),
               m_role = ''assistant'', m_content = concat chunks, m_timestamp = now,
               m_metadata = []\<rparr>]"
  proof (cases c)
    case ReadsAll
    then show ?thesis by (simp add: all add_message_messages or_empty_def)
  next
    case (DisconnectsAfter k)
    show ?thesis
    proof (cases "k \<le> length chunks")
      case True
      then show ?thesis
        unfolding DisconnectsAfter chunks_def by (simp add: generate_disconnect)
    next
      case False
      then have "length chunks < k" by simp
      then show ?thesis
        unfolding DisconnectsAfter
        by (simp add: generate_late [unfolded chunks_def [symmetric]] chunks_def [symmetric]
            all add_message_messages or_empty_def)
    qed
  qed
  show ?thesis
    using either by (simp add: Let_def chunks_def [symmetric] all add_message_messages or_empty_def)
qed


lemma opened_stream_eq:
  "opened_stream =
    (\<lparr>g_agent = \<lparr>temperature = 7 / 10, max_tokens = 1000\<rparr>, g_request = hi_request,
      g_chat_history = []\<rparr>,
     \<lparr>sessions = [\<lparr>s_session_id = ''s1'', s_created_at = 1, s_updated_at = 1, s_metadata = []\<rparr>],
      messages = [\<lparr>m_id = 1, m_session_id = ''s1'', m_role = ''user'', m_content = ''Hi'',
                   m_timestamp = 1, m_metadata = []\<rparr>],
      seq = 1\<rparr>)"
  by (simp add: opened_stream_def chat_stream_def prepare_result Let_def new_process_def
      hi_request_def default_settings_def init_database_def get_session_info_def
      create_session_def sql_insert_session_def session_ids_def or_empty_def
      add_message_result sql_update_session_def get_messages_def sql_select_messages_def
      get_agent_def ChatAgent_def or_default_def)

lemma astream_fault:
  "executor_astream lc a user_input (format_chat_history h) = (cs, Some e) \<Longrightarrow>
   astream lc a user_input h = concat (map chunk_yields cs) @ [''Error: '' @ e]"
  by (simp add: astream_def)

text \<open>
  \<^bold>\<open>C3.\<close> When the consumer disconnects after \<open>k\<close> frames, not more than the chunks
  there are, the generator is cancelled and the store is left as it was: no assistant
  message. An \<^verbatim>\<open>Exception\<close> of the executor with text \<open>e\<close> is different:
  \<^verbatim>\<open>ChatAgent.astream\<close> catches it and yields \<^verbatim>\<open>Error: e\<close> as its last chunk, the
  loop of \<^verbatim>\<open>generate()\<close> ends normally, and the chunks so far with that text are saved
  as the assistant message.
\<close>

theorem stream_interrupted:
  "(k \<le> length (astream lc (g_agent g) (q_message (g_request g)) (g_chat_history g)) \<longrightarrow>
      generate lc g db (DisconnectsAfter k) now =
        (map Yield (map sse (take k
           (astream lc (g_agent g) (q_message (g_request g)) (g_chat_history g)))),
         Cancelled, db)) \<and>
   (executor_astream lc (g_agent g) (q_message (g_request g))
        (format_chat_history (g_chat_history g)) = (cs, Some e) \<longrightarrow>
      astream lc (g_agent g) (q_message (g_request g)) (g_chat_history g) =
        concat (map chunk_yields cs) @ [''Error: '' @ e] \<and>
      messages (snd (snd (generate lc g db ReadsAll now))) = messages db @
        [\<lparr>m_id = Suc (seq db), m_session_id = q_session_id (g_request g),
          m_role = ''assistant'',
          m_content = concat (concat (map chunk_yields cs)) @ ''Error: '' @ e,
          m_timestamp = now, m_metadata = []\<rparr>])"
  by (auto simp: generate_disconnect generate_reads_all Let_def astream_fault
      add_message_messages or_empty_def)

text \<open>
  The claim as it is written, no assistant message after a fault of the producer, fails
  on an executor that gives the chunk \<^verbatim>\<open>Hel\<close> and then raises \<^verbatim>\<open>boom\<close>.
\<close>

theorem stream_interrupted_counterexample:
  "executor_astream failing_executor (g_agent (fst opened_stream))
      (q_message (g_request (fst opened_stream)))
      (format_chat_history (g_chat_history (fst opened_stream))) =
     ([\<lparr>k_output = Some ''Hel'', k_agent_messages = None\<rparr>], Some ''boom'') \<and>
   get_messages (snd opened_stream) ''s1'' None =
     Inr [\<lparr>role = ''user'', content = ''Hi'', timestamp = 1\<rparr>] \<and>
   get_messages (snd (snd (generate failing_executor (fst opened_stream) (snd opened_stream)
                             ReadsAll 2))) ''s1'' None =
     Inr [\<lparr>role = ''user'', content = ''Hi'', timestamp = 1\<rparr>,
          \<lparr>role = ''assistant'', content = ''HelError: boom'', timestamp = 2\<rparr>]"
  by (simp add: opened_stream_eq failing_executor_def generate_reads_all Let_def
      astream_def chunk_yields_def add_message_messages hi_request_def format_chat_history_def
      get_messages_def sql_select_messages_def owned_by_def to_message_dict_def or_empty_def)


lemmas eval_store =
  init_database_def get_session_info_def create_session_def sql_insert_session_def
  session_ids_def or_empty_def add_message_result sql_update_session_def get_messages_def
  sql_select_messages_def owned_by_def to_message_dict_def

lemmas eval_agent =
  get_agent_def ChatAgent_def or_default_def default_settings_def format_chat_history_def
  run_def tool_names_def astream_def chunk_yields_def

theorem stream_interrupted_witness:
  "1 \<le> length (astream failing_executor (g_agent (fst opened_stream))
                 (q_message (g_request (fst opened_stream)))
                 (g_chat_history (fst opened_stream))) \<and>
   generate failing_executor (fst opened_stream) (snd opened_stream) (DisconnectsAfter 1) 2 =
     ([Yield (sse ''Hel'')], Cancelled, snd opened_stream) \<and>
   executor_astream failing_executor (g_agent (fst opened_stream))
      (q_message (g_request (fst opened_stream)))
      (format_chat_history (g_chat_history (fst opened_stream))) =
     ([\<lparr>k_output = Some ''Hel'', k_agent_messages = None\<rparr>], Some ''boom'') \<and>
   map m_content (messages (snd (snd (generate failing_executor (fst opened_stream)
                                        (snd opened_stream) ReadsAll 2)))) =
     [''Hi'', ''HelError: boom'']"
proof -
  have chunks: "astream failing_executor (g_agent (fst opened_stream))
                 (q_message (g_request (fst opened_stream)))
                 (g_chat_history (fst opened_stream)) = [''Hel'', ''Error: boom'']"
    by (simp add: failing_executor_def astream_def chunk_yields_def)
  have fault: "executor_astream failing_executor (g_agent (fst opened_stream))
      (q_message (g_request (fst opened_stream)))
      (format_chat_history (g_chat_history (fst opened_stream))) =
     ([\<lparr>k_output = Some ''Hel'', k_agent_messages = None\<rparr>], Some ''boom'')"
    by (simp add: failing_executor_def)
  from stream_interrupted [of 1 failing_executor "fst opened_stream" "snd opened_stream" 2
         "[\<lparr>k_output = Some ''Hel'', k_agent_messages = None\<rparr>]" "''boom''"]
       fault
  show ?thesis
    by (simp add: chunks chunk_yields_def opened_stream_eq)
qed

theorem stream_saved_once_witness:
  "generate working_executor (fst opened_stream) (snd opened_stream) ReadsAll 2 =
     ([Yield (sse ''Hel''), Yield (sse ''lo''), AddMessage ''Hello'', Yield done_frame],
      Finished,
      snd (add_message (snd opened_stream) ''s1'' ''assistant'' ''Hello'' None 2)) \<and>
   map m_content (messages (snd (snd (generate working_executor (fst opened_stream)
                                        (snd opened_stream) ReadsAll 2)))) =
     [''Hi'', ''Hello''] \<and>
   messages (snd (snd (generate working_executor (fst opened_stream) (snd opened_stream)
                         (DisconnectsAfter 2) 2))) = messages (snd opened_stream)"
proof -
  have chunks: "astream working_executor (g_agent (fst opened_stream))
                 (q_message (g_request (fst opened_stream)))
                 (g_chat_history (fst opened_stream)) = [''Hel'', ''lo'']"
    by (simp add: working_executor_def astream_def chunk_yields_def)
  have sid: "q_session_id (g_request (fst opened_stream)) = ''s1''"
    by (simp add: opened_stream_eq hi_request_def)
  have before: "map m_content (messages (snd opened_stream)) = [''Hi'']"
    by (simp add: opened_stream_eq)
  have cut: "generate working_executor (fst opened_stream) (snd opened_stream)
               (DisconnectsAfter 2) 2 =
             ([Yield (sse ''Hel''), Yield (sse ''lo'')], Cancelled, snd opened_stream)"
    by (simp add: generate_def chunks pulled_def)
  from stream_saved_once [of working_executor "fst opened_stream" "snd opened_stream" 2
         "DisconnectsAfter 2"]
  have "generate working_executor (fst opened_stream) (snd opened_stream) ReadsAll 2 =
     ([Yield (sse ''Hel''), Yield (sse ''lo''), AddMessage ''Hello'', Yield done_frame],
      Finished,
      snd (add_message (snd opened_stream) ''s1'' ''assistant'' ''Hello'' None 2))"
    and "map m_content (messages (snd (snd (generate working_executor (fst opened_stream)
                                        (snd opened_stream) ReadsAll 2)))) =
         map m_content (messages (snd opened_stream)) @ [''Hello'']"
    by (simp_all add: Let_def chunks sid add_message_messages)
  then show ?thesis
    by (simp add: before cut)
qed

theorem chat_agent_failure_witness:
  "fst (prepare default_settings new_process hi_request 1 1) =
     Inr ([], \<lparr>temperature = 7 / 10, max_tokens = 1000\<rparr>) \<and>
   executor_invoke failing_executor \<lparr>temperature = 7 / 10, max_tokens = 1000\<rparr>
     (q_message hi_request) (format_chat_history []) = Inl ''boom'' \<and>
   fst (chat failing_executor default_settings new_process hi_request 1 1 2) =
     Inr \<lparr>p_response = ''I encountered an error: boom. Please try again.'',
          p_session_id = ''s1'', p_tools_used = [], p_tokens_used = None,
          p_finish_reason = None\<rparr> \<and>
   map m_content (messages (memory (snd (chat failing_executor default_settings new_process
                                           hi_request 1 1 2)))) =
     [''Hi'', ''I encountered an error: boom. Please try again.'']"
proof -
  have p: "fst (prepare default_settings new_process hi_request 1 1) =
     Inr ([], \<lparr>temperature = 7 / 10, max_tokens = 1000\<rparr>)"
    by (simp add: prepare_result Let_def new_process_def hi_request_def eval_store eval_agent)
  have f: "executor_invoke failing_executor \<lparr>temperature = 7 / 10, max_tokens = 1000\<rparr>
     (q_message hi_request) (format_chat_history []) = Inl ''boom''"
    by (simp add: failing_executor_def)
  from chat_agent_failure [OF p f, of 2] p f
  show ?thesis
    by (simp add: hi_request_def new_process_def init_database_def)
qed

text \<open>
  \<^bold>\<open>C10.\<close> With the global agent set, \<^verbatim>\<open>get_agent\<close> returns it whatever the
  temperature and the token limit it is called with. Both chat endpoints leave the
  global agent set. So, once it is set, the answer of \<^verbatim>\<open>POST /chat\<close> and the process
  it leaves do not depend on the overrides of the request, the generator of
  \<^verbatim>\<open>POST /chat/stream\<close> holds the agent that was there, and the agent stays the same.
\<close>

theorem get_agent_ignores_overrides:
  "get_agent cfg (Some a) t m = (a, Some a) \<and>
   agent (snd (chat lc cfg st request t0 t1 t2)) \<noteq> None \<and>
   agent (snd (chat_stream cfg st request t0 t1)) \<noteq> None \<and>
   (agent st = Some a \<longrightarrow>
      chat lc cfg st (request\<lparr>q_temperature := t, q_max_tokens := m\<rparr>) t0 t1 t2 =
        chat lc cfg st request t0 t1 t2 \<and>
      agent (snd (chat lc cfg st request t0 t1 t2)) = Some a \<and>
      map_sum id g_agent
        (fst (chat_stream cfg st (request\<lparr>q_temperature := t, q_max_tokens := m\<rparr>) t0 t1)) =
        Inr a \<and>
      snd (chat_stream cfg st (request\<lparr>q_temperature := t, q_max_tokens := m\<rparr>) t0 t1) =
        snd (chat_stream cfg st request t0 t1) \<and>
      agent (snd (chat_stream cfg st request t0 t1)) = Some a)"
  by (auto simp: get_agent_def chat_result chat_stream_def prepare_result Let_def
           split: option.splits)

theorem get_agent_ignores_overrides_witness:
  "agent warmed = Some \<lparr>temperature = 7 / 10, max_tokens = 1000\<rparr> \<and>
   fst (chat working_executor default_settings warmed
          (hi_request\<lparr>q_temperature := Some (1 / 5), q_max_tokens := Some 50\<rparr>) 3 3 4) =
     Inr \<lparr>p_response = ''warm'', p_session_id = ''s1'', p_tools_used = [''calculator''],
          p_tokens_used = None, p_finish_reason = None\<rparr> \<and>
   fst (chat working_executor default_settings new_process
          (hi_request\<lparr>q_temperature := Some (1 / 5), q_max_tokens := Some 50\<rparr>) 3 3 4) =
     Inr \<lparr>p_response = ''cold'', p_session_id = ''s1'', p_tools_used = [''calculator''],
          p_tokens_used = None, p_finish_reason = None\<rparr>"
proof -
  have a: "agent warmed = Some \<lparr>temperature = 7 / 10, max_tokens = 1000\<rparr>"
    by (simp add: warmed_def chat_result prepare_result Let_def new_process_def hi_request_def
        eval_agent split: option.splits)
  have plain: "fst (chat working_executor default_settings warmed hi_request 3 3 4) =
     Inr \<lparr>p_response = ''warm'', p_session_id = ''s1'', p_tools_used = [''calculator''],
          p_tokens_used = None, p_finish_reason = None\<rparr>"
    by (simp add: chat_result prepare_result Let_def a hi_request_def working_executor_def
        eval_agent split: option.splits)
  have first: "fst (chat working_executor default_settings new_process
          (hi_request\<lparr>q_temperature := Some (1 / 5), q_max_tokens := Some 50\<rparr>) 3 3 4) =
     Inr \<lparr>p_response = ''cold'', p_session_id = ''s1'', p_tools_used = [''calculator''],
          p_tokens_used = None, p_finish_reason = None\<rparr>"
    by (simp add: chat_result prepare_result Let_def new_process_def hi_request_def
        working_executor_def eval_agent split: option.splits)
  from get_agent_ignores_overrides
         [of default_settings "\<lparr>temperature = 7 / 10, max_tokens = 1000\<rparr>" "Some (1 / 5)"
             "Some 50" working_executor warmed hi_request 3 3 4]
       a plain first
  show ?thesis by simp
qed

end
